theory Spec2Isabelle
  imports Main "HOL-Library.AList"
begin

section \<open>Errors\<close>

text \<open>
  The construct is TypeScript and catches nothing: an exception raised by a function it
  calls leaves the constructor or the method. The exceptions on its paths are the
  \<^verbatim>\<open>TypeError\<close> of the version comparison, the \<^verbatim>\<open>Error\<close> of the construct tree (an id
  that is empty or already in use in its scope) and the \<^verbatim>\<open>RangeError\<close> of the service
  account (a namespace that is not a DNS label). An exception is a value of a sum type,
  \<open>Inl\<close> carrying the error, paired with the state it leaves behind.
\<close>

datatype error = TypeError string | Error string | RangeError string

section \<open>The imported version comparison\<close>

text \<open>
  Modelled from the spec: the "semantic-version comparison" that the constructor calls as
  \<^verbatim>\<open>semver.lt(this.version, '0.17.0')\<close>. The function comes from the semver package, which
  is imported and not part of the sources. The definitions below follow that package in its
  default (strict) mode: a version is parsed by the anchored pattern
  \<^verbatim>\<open>v?MAJOR.MINOR.PATCH(-PRERELEASE)?(+BUILD)?\<close> after trimming white space, a string that
  does not match raises a \<^verbatim>\<open>TypeError\<close>, and two parsed versions are compared by their
  numbers first and their prerelease identifiers second. Strings are lists of 8-bit
  characters here; a character beyond that range never occurs in a valid version.
  Numbers are exact integers; numeric prerelease identifiers are compared exactly (the package compares
  identifiers of 16 digits and more after a conversion to floating point); the threshold
  \<^verbatim>\<open>'0.17.0'\<close> has no prerelease, so that comparison is never reached from the construct.
\<close>

definition MAX_LENGTH :: nat where
  "MAX_LENGTH = 256"

definition MAX_SAFE_INTEGER :: int where
  "MAX_SAFE_INTEGER = 9007199254740991"

definition digit :: "char \<Rightarrow> bool" where
  "digit c = (c \<in> set ''0123456789'')"

definition letterdash :: "char \<Rightarrow> bool" where
  "letterdash c =
     (c \<in> set ''abcdefghijklmnopqrstuvwxyzABCDEFGHIJKLMNOPQRSTUVWXYZ-'')"

definition whitespace :: "char \<Rightarrow> bool" where
  "whitespace c = ((of_char c :: nat) \<in> set [9, 10, 11, 12, 13, 32, 160])"

definition trim :: "string \<Rightarrow> string" where
  "trim s = rev (dropWhile whitespace (rev (dropWhile whitespace s)))"

text \<open>\<^verbatim>\<open>s.split(sep)\<close> for a separator of one character: the empty string gives one empty part.\<close>

fun str_split :: "char \<Rightarrow> string \<Rightarrow> string list" where
  "str_split sep [] = [[]]"
| "str_split sep (c # cs) =
     (if c = sep then [] # str_split sep cs
      else (case str_split sep cs of
              [] \<Rightarrow> [[c]]
            | p # ps \<Rightarrow> (c # p) # ps))"

text \<open>The value of a string of decimal digits (\<^verbatim>\<open>+m[1]\<close>).\<close>

definition to_number :: "string \<Rightarrow> int" where
  "to_number s = foldl (\<lambda>n c. 10 * n + (of_char c - 48)) 0 s"

text \<open>\<^verbatim>\<open>NUMERICIDENTIFIER = 0|[1-9]\d*\<close>\<close>

definition numeric_identifier :: "string \<Rightarrow> bool" where
  "numeric_identifier s =
     (s \<noteq> [] \<and> list_all digit s \<and> (s = ''0'' \<or> hd s \<noteq> CHR ''0''))"

text \<open>\<^verbatim>\<open>NONNUMERICIDENTIFIER = \d*[a-zA-Z-][a-zA-Z0-9-]*\<close>\<close>

definition non_numeric_identifier :: "string \<Rightarrow> bool" where
  "non_numeric_identifier s =
     (list_all (\<lambda>c. digit c \<or> letterdash c) s \<and> list_ex letterdash s)"

definition prerelease_identifier :: "string \<Rightarrow> bool" where
  "prerelease_identifier s = (numeric_identifier s \<or> non_numeric_identifier s)"

text \<open>\<^verbatim>\<open>BUILDIDENTIFIER = [0-9A-Za-z-]+\<close>\<close>

definition build_identifier :: "string \<Rightarrow> bool" where
  "build_identifier s = (s \<noteq> [] \<and> list_all (\<lambda>c. digit c \<or> letterdash c) s)"

text \<open>
  \<^verbatim>\<open>version.match(re[t.FULL])\<close>: the five groups of a match (major, minor, patch, prerelease,
  build), or \<open>None\<close>. The numbers hold neither \<^verbatim>\<open>-\<close> nor \<^verbatim>\<open>+\<close> and the prerelease holds no
  \<^verbatim>\<open>+\<close>, so the build starts after the first \<^verbatim>\<open>+\<close> and the prerelease after the first
  \<^verbatim>\<open>-\<close> before it.
\<close>

definition match_FULL ::
  "string \<Rightarrow> (string \<times> string \<times> string \<times> string option \<times> string option) option" where
  "match_FULL s =
     (let s1 = (case s of [] \<Rightarrow> s | c # cs \<Rightarrow> if c = CHR ''v'' then cs else s);
          mainpre = takeWhile (\<lambda>c. c \<noteq> CHR ''+'') s1;
          bld = (case dropWhile (\<lambda>c. c \<noteq> CHR ''+'') s1 of [] \<Rightarrow> None | _ # b \<Rightarrow> Some b);
          main = takeWhile (\<lambda>c. c \<noteq> CHR ''-'') mainpre;
          pre = (case dropWhile (\<lambda>c. c \<noteq> CHR ''-'') mainpre of [] \<Rightarrow> None | _ # p \<Rightarrow> Some p)
      in case str_split CHR ''.'' main of
           [m1, m2, m3] \<Rightarrow>
             if numeric_identifier m1 \<and> numeric_identifier m2 \<and> numeric_identifier m3
                \<and> (case pre of None \<Rightarrow> True
                    | Some p \<Rightarrow> list_all prerelease_identifier (str_split CHR ''.'' p))
                \<and> (case bld of None \<Rightarrow> True
                    | Some b \<Rightarrow> list_all build_identifier (str_split CHR ''.'' b))
             then Some (m1, m2, m3, pre, bld)
             else None
         | _ \<Rightarrow> None)"

datatype ident = Numeric int | Alphanumeric string

record SemVer =
  major :: int
  minor :: int
  patch :: int
  prerelease :: "ident list"
  build :: "string list"

text \<open>\<^verbatim>\<open>new SemVer(version)\<close>\<close>

definition new_SemVer :: "string \<Rightarrow> error + SemVer" where
  "new_SemVer version =
     (if length version > MAX_LENGTH
      then Inl (TypeError ''version is longer than 256 characters'')
      else case match_FULL (trim version) of
          None \<Rightarrow> Inl (TypeError (''Invalid Version: '' @ version))
        | Some (m1, m2, m3, m4, m5) \<Rightarrow>
            if to_number m1 > MAX_SAFE_INTEGER then Inl (TypeError ''Invalid major version'')
            else if to_number m2 > MAX_SAFE_INTEGER then Inl (TypeError ''Invalid minor version'')
            else if to_number m3 > MAX_SAFE_INTEGER then Inl (TypeError ''Invalid patch version'')
            else Inr \<lparr>major = to_number m1, minor = to_number m2, patch = to_number m3,
                      prerelease = (case m4 of
                          None \<Rightarrow> []
                        | Some p \<Rightarrow>
                            map (\<lambda>id. if list_all digit id \<and> to_number id < MAX_SAFE_INTEGER
                                      then Numeric (to_number id) else Alphanumeric id)
                                (str_split CHR ''.'' p)),
                      build = (case m5 of None \<Rightarrow> [] | Some b \<Rightarrow> str_split CHR ''.'' b)\<rparr>)"

text \<open>A JavaScript string comparison \<^verbatim>\<open>a < b\<close>: lexicographic on the character codes.\<close>

fun str_less :: "string \<Rightarrow> string \<Rightarrow> bool" where
  "str_less [] [] = False"
| "str_less [] (b # bs) = True"
| "str_less (a # as) [] = False"
| "str_less (a # as) (b # bs) =
     (if a = b then str_less as bs else (of_char a :: nat) < of_char b)"

definition identifier_number :: "ident \<Rightarrow> int option" where
  "identifier_number a =
     (case a of
        Numeric n \<Rightarrow> Some n
      | Alphanumeric s \<Rightarrow> if s \<noteq> [] \<and> list_all digit s then Some (to_number s) else None)"

definition compareIdentifiers :: "ident \<Rightarrow> ident \<Rightarrow> int" where
  "compareIdentifiers a b =
     (case (identifier_number a, identifier_number b) of
        (Some x, Some y) \<Rightarrow> if x = y then 0 else if x < y then - 1 else 1
      | (Some x, None) \<Rightarrow> - 1
      | (None, Some y) \<Rightarrow> 1
      | (None, None) \<Rightarrow>
          (case (a, b) of
             (Alphanumeric s, Alphanumeric t) \<Rightarrow>
               if s = t then 0 else if str_less s t then - 1 else 1
           | _ \<Rightarrow> 0))"

definition compareNumbers :: "int \<Rightarrow> int \<Rightarrow> int" where
  "compareNumbers a b = (if a = b then 0 else if a < b then - 1 else 1)"

definition compareMain :: "SemVer \<Rightarrow> SemVer \<Rightarrow> int" where
  "compareMain this other =
     (if compareNumbers (major this) (major other) \<noteq> 0
      then compareNumbers (major this) (major other)
      else if compareNumbers (minor this) (minor other) \<noteq> 0
      then compareNumbers (minor this) (minor other)
      else compareNumbers (patch this) (patch other))"

text \<open>The loop of \<^verbatim>\<open>comparePre\<close> over the two identifier lists, index by index.\<close>

fun comparePre_loop :: "ident list \<Rightarrow> ident list \<Rightarrow> int" where
  "comparePre_loop [] [] = 0"
| "comparePre_loop (a # as) [] = 1"
| "comparePre_loop [] (b # bs) = - 1"
| "comparePre_loop (a # as) (b # bs) =
     (if a = b then comparePre_loop as bs else compareIdentifiers a b)"

definition comparePre :: "SemVer \<Rightarrow> SemVer \<Rightarrow> int" where
  "comparePre this other =
     (if prerelease this \<noteq> [] \<and> prerelease other = [] then - 1
      else if prerelease this = [] \<and> prerelease other \<noteq> [] then 1
      else if prerelease this = [] \<and> prerelease other = [] then 0
      else comparePre_loop (prerelease this) (prerelease other))"

definition compare :: "SemVer \<Rightarrow> SemVer \<Rightarrow> int" where
  "compare this other =
     (if compareMain this other \<noteq> 0 then compareMain this other
      else comparePre this other)"

text \<open>
  \<^verbatim>\<open>semver.lt(a, b)\<close> is \<^verbatim>\<open>new SemVer(a).compare(new SemVer(b)) < 0\<close>: the first version is
  parsed first, and either parse may raise.
\<close>

definition semver_lt :: "string \<Rightarrow> string \<Rightarrow> error + bool" where
  "semver_lt a b =
     (case new_SemVer a of
        Inl e \<Rightarrow> Inl e
      | Inr x \<Rightarrow>
          (case new_SemVer b of
             Inl e \<Rightarrow> Inl e
           | Inr y \<Rightarrow> Inr (compare x y < 0)))"

section \<open>The resource model\<close>

text \<open>
  The construct composes primitives of the infrastructure library (roles, policies,
  instance profiles, manifests, service accounts, Helm charts). The library is imported and
  not part of the sources, so each primitive is modelled by what it records and by the
  checks it makes on the way. Every construct is a node of the construct tree, named by the
  path of its scope and its id; creating a construct with an empty id, or with an id that
  its scope already uses, raises an \<^verbatim>\<open>Error\<close> and records nothing. A construct that
  declares a resource is appended to the list of constructs of the application and is
  referred to by its position; the role mappings of a cluster are part of the cluster
  object; a dependency between two constructs is an edge. The constructs that the library
  creates inside its own primitives (the aws-auth manifest, the role of a service account,
  the provider behind a manifest) are not recorded.

  A value that is only known at deployment (the name or ARN of a role, the reference of an
  instance profile) is a token; a string with tokens is a sequence of literal fragments and
  tokens, as a template literal is.
\<close>

type_synonym ref = nat

type_synonym path = "string list"

datatype IRole = RoleRef ref | ServiceAccountRole ref

datatype token =
    URL_SUFFIX
  | RoleName IRole
  | RoleArn IRole
  | Ref ref
  | ServiceAccountName ref

datatype fragment = Lit string | Tok token

type_synonym tstring = "fragment list"

datatype json =
    JString tstring
  | JBoolean bool
  | JNumber int
  | JNull
  | JArray "json list"
  | JObject "(string \<times> json) list"

datatype principal = ServicePrincipal tstring

datatype managed_policy = fromAwsManagedPolicyName string

record RoleProps =
  assumedBy :: principal
  managedPolicies :: "managed_policy list"

record CfnInstanceProfileProps =
  roles :: "tstring list"
  instanceProfileName :: tstring

record AwsAuthMapping =
  username :: string
  groups :: "string list"

record PolicyStatement =
  actions :: "string list"
  resources :: "tstring list"

record PolicyProps =
  roles :: "IRole list"
  statements :: "PolicyStatement list"

record ServiceAccountOptions =
  namespace :: "string option"

record HelmChartOptions =
  wait :: bool
  chart :: string
  release :: string
  repository :: "string option"
  namespace :: string
  version :: "string option"
  createNamespace :: bool
  "values" :: json

text \<open>
  A construct with the scope it was created in and its id. The resources of a cluster
  (\<^verbatim>\<open>cluster.addManifest\<close>, \<^verbatim>\<open>cluster.addServiceAccount\<close>, \<^verbatim>\<open>cluster.addHelmChart\<close>) carry
  the cluster they were added to.
\<close>

datatype construct =
    Role path string RoleProps
  | CfnInstanceProfile path string CfnInstanceProfileProps
  | Policy path string PolicyProps
  | KubernetesManifest nat string json
  | ServiceAccount nat string ServiceAccountOptions
  | HelmChart nat string HelmChartOptions

text \<open>A cluster object: its path in the construct tree, its attributes, its role mappings.\<close>

record Cluster =
  node_path :: path
  clusterName :: tstring
  clusterEndpoint :: tstring
  awsAuth :: "(IRole \<times> AwsAuthMapping) list"

text \<open>
  The state the construct works on: the cluster objects (a store, so that two props may
  name the same cluster or different ones), the constructs declared so far, the
  dependency edges \<open>(a, b)\<close>, read "\<open>a\<close> depends on \<open>b\<close>", and the paths of all nodes of
  the construct tree.
\<close>

record App =
  clusters :: "nat \<Rightarrow> Cluster"
  constructs :: "construct list"
  dependencies :: "(ref \<times> ref) list"
  tree :: "path list"

text \<open>
  A fallible step returns its result, or the error it raised, with the state it leaves;
  \<open>and_then\<close> runs the rest of a function body after a step that did not raise.
\<close>

definition and_then ::
  "(error + 'a) \<times> App \<Rightarrow> ('a \<Rightarrow> App \<Rightarrow> (error + 'b) \<times> App) \<Rightarrow> (error + 'b) \<times> App" where
  "and_then r f = (case r of (Inl e, s) \<Rightarrow> (Inl e, s) | (Inr x, s) \<Rightarrow> f x s)"

text \<open>The construct tree writes a path separator inside an id as two dashes.\<close>

fun sanitizeId :: "string \<Rightarrow> string" where
  "sanitizeId [] = []"
| "sanitizeId (c # cs) =
     (if c = CHR ''/'' then ''--'' @ sanitizeId cs else c # sanitizeId cs)"

text \<open>
  \<^verbatim>\<open>new Construct(scope, id)\<close>, the base constructor of every construct: the node is
  added to its scope, unless the id is empty or the scope has a child of that name already
  (the library's message also names the scope). The result is the path of the new node.
\<close>

definition new_Construct :: "path \<Rightarrow> string \<Rightarrow> App \<Rightarrow> (error + path) \<times> App" where
  "new_Construct scope id' s =
     (if sanitizeId id' = [] then
        (Inl (Error ''Only root constructs may have an empty ID''), s)
      else if scope @ [sanitizeId id'] \<in> set (tree s) then
        (Inl (Error (''There is already a Construct with name '' @ sanitizeId id')), s)
      else (Inr (scope @ [sanitizeId id']), s\<lparr>tree := tree s @ [scope @ [sanitizeId id']]\<rparr>))"

text \<open>A construct that declares the resource \<open>c\<close>: the node first, then the resource.\<close>

definition new_construct :: "path \<Rightarrow> string \<Rightarrow> construct \<Rightarrow> App \<Rightarrow> (error + ref) \<times> App" where
  "new_construct scope id' c s =
     and_then (new_Construct scope id' s)
       (\<lambda>node s1. (Inr (length (constructs s1)), s1\<lparr>constructs := constructs s1 @ [c]\<rparr>))"

definition new_Role :: "path \<Rightarrow> string \<Rightarrow> RoleProps \<Rightarrow> App \<Rightarrow> (error + ref) \<times> App" where
  "new_Role scope id' props s = new_construct scope id' (Role scope id' props) s"

definition new_CfnInstanceProfile ::
  "path \<Rightarrow> string \<Rightarrow> CfnInstanceProfileProps \<Rightarrow> App \<Rightarrow> (error + ref) \<times> App" where
  "new_CfnInstanceProfile scope id' props s =
     new_construct scope id' (CfnInstanceProfile scope id' props) s"

definition new_Policy :: "path \<Rightarrow> string \<Rightarrow> PolicyProps \<Rightarrow> App \<Rightarrow> (error + ref) \<times> App" where
  "new_Policy scope id' props s = new_construct scope id' (Policy scope id' props) s"

definition addRoleMapping :: "nat \<Rightarrow> IRole \<Rightarrow> AwsAuthMapping \<Rightarrow> App \<Rightarrow> App" where
  "addRoleMapping c role mapping s =
     s\<lparr>clusters := (clusters s)
          (c := (clusters s c)\<lparr>awsAuth := awsAuth (clusters s c) @ [(role, mapping)]\<rparr>)\<rparr>"

text \<open>
  \<^verbatim>\<open>cluster.addManifest(id, manifest)\<close> creates the construct \<^verbatim>\<open>manifest-<id>\<close> in the scope
  of the cluster.
\<close>

definition addManifest :: "nat \<Rightarrow> string \<Rightarrow> json \<Rightarrow> App \<Rightarrow> (error + ref) \<times> App" where
  "addManifest c id' manifest s =
     new_construct (node_path (clusters s c)) (''manifest-'' @ id')
       (KubernetesManifest c id' manifest) s"

text \<open>
  The check of the service account on its namespace:
  \<^verbatim>\<open>value.length <= 63 && /^[a-z0-9]+[a-z0-9-]*[a-z0-9]+$/.test(value)\<close>, that is, at least
  two characters, all of them lower-case letters, digits or dashes, the first and the last
  no dash.
\<close>

definition lower_alphanumeric :: "char \<Rightarrow> bool" where
  "lower_alphanumeric c = (c \<in> set ''abcdefghijklmnopqrstuvwxyz0123456789'')"

definition isValidDnsLabelName :: "string \<Rightarrow> bool" where
  "isValidDnsLabelName v =
     (length v \<le> 63 \<and> 2 \<le> length v
      \<and> list_all (\<lambda>c. lower_alphanumeric c \<or> c = CHR ''-'') v
      \<and> lower_alphanumeric (hd v) \<and> lower_alphanumeric (last v))"

text \<open>
  \<^verbatim>\<open>cluster.addServiceAccount(id, options)\<close> creates the construct \<^verbatim>\<open>id\<close> in the scope of the
  cluster; its constructor registers the node and then checks the namespace (\<^verbatim>\<open>default\<close>
  when none is given), raising a \<^verbatim>\<open>RangeError\<close> before it declares anything. The name of
  the service account is not given by the construct and is generated by the library.
\<close>

definition addServiceAccount ::
  "nat \<Rightarrow> string \<Rightarrow> ServiceAccountOptions \<Rightarrow> App \<Rightarrow> (error + ref) \<times> App" where
  "addServiceAccount c id' options s =
     and_then (new_Construct (node_path (clusters s c)) id' s)
       (\<lambda>node s1.
          if \<not> isValidDnsLabelName
                (case ServiceAccountOptions.namespace options of
                   None \<Rightarrow> ''default'' | Some n \<Rightarrow> n)
          then (Inl (RangeError ''All namespace names must be valid RFC 1123 DNS labels.''), s1)
          else (Inr (length (constructs s1)),
                s1\<lparr>constructs := constructs s1 @ [ServiceAccount c id' options]\<rparr>))"

text \<open>
  \<^verbatim>\<open>cluster.addHelmChart(id, options)\<close> creates the construct \<^verbatim>\<open>chart-<id>\<close> in the scope of
  the cluster.
\<close>

definition addHelmChart ::
  "nat \<Rightarrow> string \<Rightarrow> HelmChartOptions \<Rightarrow> App \<Rightarrow> (error + ref) \<times> App" where
  "addHelmChart c id' options s =
     new_construct (node_path (clusters s c)) (''chart-'' @ id') (HelmChart c id' options) s"

text \<open>\<^verbatim>\<open>a.node.addDependency(b)\<close>\<close>

definition addDependency :: "ref \<Rightarrow> ref \<Rightarrow> App \<Rightarrow> App" where
  "addDependency a b s = s\<lparr>dependencies := dependencies s @ [(a, b)]\<rparr>"

definition roleName :: "IRole \<Rightarrow> tstring" where
  "roleName r = [Tok (RoleName r)]"

definition roleArn :: "IRole \<Rightarrow> tstring" where
  "roleArn r = [Tok (RoleArn r)]"

definition serviceAccountName :: "ref \<Rightarrow> tstring" where
  "serviceAccountName sa = [Tok (ServiceAccountName sa)]"

section \<open>The construct\<close>

record KarpenterProps =
  cluster :: nat
  namespace :: "string option"
  version :: "string option"
  helmRepository :: "string option"

record Karpenter =
  cluster :: nat
  namespace :: string
  version :: "string option"
  helmRepository :: "string option"
  nodeRole :: ref
  chart :: ref

text \<open>
  The constructor, statement by statement. Its first argument stands for the imported
  \<^verbatim>\<open>semver.lt\<close>; \<open>scope\<close> is the path of the enclosing construct. \<^verbatim>\<open>super(scope, id)\<close>
  registers the construct itself. The condition
  \<^verbatim>\<open>this.version !== undefined && semver.lt(this.version, '0.17.0')\<close> evaluates the
  comparison only for a defined version, and an exception of the comparison leaves the
  constructor with the node of the construct registered and nothing declared. Every later
  call of the library may raise, and then leaves what was declared before it.
\<close>

definition Karpenter_constructor_with ::
  "(string \<Rightarrow> string \<Rightarrow> error + bool) \<Rightarrow> path \<Rightarrow> string \<Rightarrow> KarpenterProps \<Rightarrow> App
     \<Rightarrow> (error + Karpenter) \<times> App" where
  "Karpenter_constructor_with lt scope id' props s0 =
     and_then (new_Construct scope id' s0) (\<lambda>this s1.
     let this_cluster = KarpenterProps.cluster props;
         this_namespace = (case KarpenterProps.namespace props of
                             None \<Rightarrow> ''karpenter'' | Some n \<Rightarrow> n);
         this_version = KarpenterProps.version props
     in case (case KarpenterProps.helmRepository props of
                Some r \<Rightarrow> Inr (Some r)
              | None \<Rightarrow>
                  (case this_version of
                     None \<Rightarrow> Inr (Some ''oci://public.ecr.aws/karpenter'')
                   | Some v \<Rightarrow>
                       (case lt v ''0.17.0'' of
                          Inl e \<Rightarrow> Inl e
                        | Inr b \<Rightarrow>
                            if b then Inr (Some ''https://charts.karpenter.sh'')
                            else Inr (Some ''oci://public.ecr.aws/karpenter'')))) of
          Inl e \<Rightarrow> (Inl e, s1)
        | Inr this_helmRepository \<Rightarrow>
     and_then (new_Role this ''NodeRole''
        \<lparr>assumedBy = ServicePrincipal [Lit ''ec2.'', Tok URL_SUFFIX],
         managedPolicies =
           [fromAwsManagedPolicyName ''AmazonEKS_CNI_Policy'',
            fromAwsManagedPolicyName ''AmazonEKSWorkerNodePolicy'',
            fromAwsManagedPolicyName ''AmazonEC2ContainerRegistryReadOnly'',
            fromAwsManagedPolicyName ''AmazonSSMManagedInstanceCore'']\<rparr> s1) (\<lambda>nodeRole s2.
     and_then (new_CfnInstanceProfile this ''InstanceProfile''
        \<lparr>CfnInstanceProfileProps.roles = [roleName (RoleRef nodeRole)],
         instanceProfileName =
           clusterName (clusters s2 this_cluster) @ [Lit ''-'', Lit id']\<rparr> s2)
       (\<lambda>instanceProfile s3.
     let s4 = addRoleMapping this_cluster (RoleRef nodeRole)
        \<lparr>username = ''system:node:{{EC2PrivateDNSName}}'',
         groups = [''system:bootstrappers'', ''system:nodes'']\<rparr> s3
     in
     and_then (addManifest this_cluster ''namespace''
        (JObject
          [(''apiVersion'', JString [Lit ''v1'']),
           (''kind'', JString [Lit ''Namespace'']),
           (''metadata'', JObject [(''name'', JString [Lit this_namespace])])]) s4)
       (\<lambda>namespace s5.
     and_then (addServiceAccount this_cluster ''karpenter''
        \<lparr>ServiceAccountOptions.namespace = Some this_namespace\<rparr> s5) (\<lambda>serviceAccount s6.
     let s7 = addDependency serviceAccount namespace s6
     in
     and_then (new_Policy this ''ControllerPolicy''
        \<lparr>PolicyProps.roles = [ServiceAccountRole serviceAccount],
         statements =
           [\<lparr>actions =
               [''ec2:CreateFleet'',
                ''ec2:CreateLaunchTemplate'',
                ''ec2:CreateTags'',
                ''ec2:DeleteLaunchTemplate'',
                ''ec2:RunInstances'',
                ''ec2:TerminateInstances'',
                ''ec2:DescribeAvailabilityZones'',
                ''ec2:DescribeImages'',
                ''ec2:DescribeInstances'',
                ''ec2:DescribeInstanceTypeOfferings'',
                ''ec2:DescribeInstanceTypes'',
                ''ec2:DescribeLaunchTemplates'',
                ''ec2:DescribeSecurityGroups'',
                ''ec2:DescribeSpotPriceHistory'',
                ''ec2:DescribeSubnets'',
                ''pricing:GetProducts'',
                ''ssm:GetParameter''],
              resources = [[Lit ''*'']]\<rparr>,
            \<lparr>actions = [''iam:PassRole''],
              resources = [roleArn (RoleRef nodeRole)]\<rparr>]\<rparr> s7) (\<lambda>controllerPolicy s8.
     and_then (addHelmChart this_cluster ''karpenter''
        \<lparr>wait = True,
         chart = ''karpenter'',
         release = ''karpenter'',
         repository = this_helmRepository,
         HelmChartOptions.namespace = this_namespace,
         HelmChartOptions.version = this_version,
         createNamespace = False,
         values = JObject
           [(''serviceAccount'', JObject
               [(''create'', JBoolean False),
                (''name'', JString (serviceAccountName serviceAccount)),
                (''annotations'', JObject
                   [(''eks.amazonaws.com/role-arn'',
                     JString (roleArn (ServiceAccountRole serviceAccount)))])]),
            (''clusterName'', JString (clusterName (clusters s8 this_cluster))),
            (''clusterEndpoint'', JString (clusterEndpoint (clusters s8 this_cluster))),
            (''aws'', JObject
               [(''defaultInstanceProfile'', JString [Tok (Ref instanceProfile)])])]\<rparr> s8)
       (\<lambda>chart s9.
     let s10 = addDependency chart namespace s9
     in (Inr \<lparr>Karpenter.cluster = this_cluster,
              Karpenter.namespace = this_namespace,
              Karpenter.version = this_version,
              Karpenter.helmRepository = this_helmRepository,
              nodeRole = nodeRole,
              chart = chart\<rparr>, s10))))))))"

text \<open>The constructor with the comparison of the semver package.\<close>

definition Karpenter_constructor ::
  "path \<Rightarrow> string \<Rightarrow> KarpenterProps \<Rightarrow> App \<Rightarrow> (error + Karpenter) \<times> App" where
  "Karpenter_constructor = Karpenter_constructor_with semver_lt"

text \<open>
  \<^verbatim>\<open>addProvisioner(id, provisionerSpec)\<close>: the object \<open>m\<close> is built with an empty \<open>spec\<close>,
  the assignment \<^verbatim>\<open>m.spec = provisionerSpec\<close> replaces the value of that key in place. When
  \<^verbatim>\<open>addManifest\<close> raises, the method is left before the dependency is added.
\<close>

definition addProvisioner ::
  "Karpenter \<Rightarrow> string \<Rightarrow> json \<Rightarrow> App \<Rightarrow> (error + unit) \<times> App" where
  "addProvisioner this id' provisionerSpec s0 =
     (let m = [(''apiVersion'', JString [Lit ''karpenter.sh/v1alpha5'']),
               (''kind'', JString [Lit ''Provisioner'']),
               (''metadata'', JObject
                  [(''name'', JString [Lit id']),
                   (''namespace'', JString [Lit (Karpenter.namespace this)])]),
               (''spec'', JObject [])];
          m = AList.update ''spec'' provisionerSpec m
      in and_then (addManifest (Karpenter.cluster this) id' (JObject m) s0)
           (\<lambda>provisioner s1. (Inr (), addDependency provisioner (chart this) s1)))"

section \<open>Auxiliary definitions for the statements\<close>

text \<open>
  The branch of the constructor that sets \<^verbatim>\<open>this.helmRepository\<close>, on its own: the
  constructor is shown below to return what this branch selects.
\<close>

definition helmRepository_choice ::
  "(string \<Rightarrow> string \<Rightarrow> error + bool) \<Rightarrow> KarpenterProps \<Rightarrow> error + string option" where
  "helmRepository_choice lt props =
     (case KarpenterProps.helmRepository props of
        Some r \<Rightarrow> Inr (Some r)
      | None \<Rightarrow>
          (case KarpenterProps.version props of
             None \<Rightarrow> Inr (Some ''oci://public.ecr.aws/karpenter'')
           | Some v \<Rightarrow>
               (case lt v ''0.17.0'' of
                  Inl e \<Rightarrow> Inl e
                | Inr b \<Rightarrow>
                    if b then Inr (Some ''https://charts.karpenter.sh'')
                    else Inr (Some ''oci://public.ecr.aws/karpenter''))))"

text \<open>
  The paths of the nodes that a construction creates, in the order of their creation: the
  construct itself, its three IAM resources and the three resources on the cluster.
\<close>

definition construct_paths :: "path \<Rightarrow> string \<Rightarrow> path \<Rightarrow> path list" where
  "construct_paths scope id' cluster_path =
     [scope @ [sanitizeId id'],
      scope @ [sanitizeId id'] @ [''NodeRole''],
      scope @ [sanitizeId id'] @ [''InstanceProfile''],
      cluster_path @ [''manifest-namespace''],
      cluster_path @ [''karpenter''],
      scope @ [sanitizeId id'] @ [''ControllerPolicy''],
      cluster_path @ [''chart-karpenter'']]"

text \<open>
  What the checks of the library ask of the input: an id that is not empty, seven paths
  that differ from each other and are not in use, and a namespace that is a DNS label.
\<close>

definition library_accepts :: "path \<Rightarrow> string \<Rightarrow> KarpenterProps \<Rightarrow> App \<Rightarrow> bool" where
  "library_accepts scope id' props s =
     (sanitizeId id' \<noteq> []
      \<and> distinct (construct_paths scope id' (node_path (clusters s (KarpenterProps.cluster props))))
      \<and> list_all (\<lambda>p. p \<notin> set (tree s))
           (construct_paths scope id' (node_path (clusters s (KarpenterProps.cluster props))))
      \<and> isValidDnsLabelName
           (case KarpenterProps.namespace props of None \<Rightarrow> ''karpenter'' | Some n \<Rightarrow> n))"

text \<open>What the version comparison asks of the input: it is not evaluated, or the version parses.\<close>

definition version_accepted :: "KarpenterProps \<Rightarrow> bool" where
  "version_accepted props =
     (case KarpenterProps.helmRepository props of
        Some r \<Rightarrow> True
      | None \<Rightarrow>
          (case KarpenterProps.version props of
             None \<Rightarrow> True
           | Some v \<Rightarrow> (case new_SemVer v of Inl e \<Rightarrow> False | Inr x \<Rightarrow> True)))"

text \<open>The path and the manifest of the provisioner that \<^verbatim>\<open>addProvisioner\<close> declares.\<close>

definition provisioner_path :: "App \<Rightarrow> Karpenter \<Rightarrow> string \<Rightarrow> path" where
  "provisioner_path s this id' =
     node_path (clusters s (Karpenter.cluster this)) @ [''manifest-'' @ sanitizeId id']"

definition provisioner_manifest :: "Karpenter \<Rightarrow> string \<Rightarrow> json \<Rightarrow> construct" where
  "provisioner_manifest this id' provisionerSpec =
     KubernetesManifest (Karpenter.cluster this) id'
       (JObject
         [(''apiVersion'', JString [Lit ''karpenter.sh/v1alpha5'']),
          (''kind'', JString [Lit ''Provisioner'']),
          (''metadata'', JObject
             [(''name'', JString [Lit id']),
              (''namespace'', JString [Lit (Karpenter.namespace this)])]),
          (''spec'', provisionerSpec)])"



text \<open>
  The setting of the tests: a stack \<^verbatim>\<open>test-stack\<close> with a cluster \<^verbatim>\<open>testcluster\<close>, which
  every cluster reference denotes, and nothing else declared yet.
\<close>

definition testcluster :: Cluster where
  "testcluster =
     \<lparr>node_path = [''test-stack'', ''testcluster''],
      clusterName = [Lit ''testcluster''], clusterEndpoint = [Lit ''https://testcluster''],
      awsAuth = []\<rparr>"

definition test_stack :: App where
  "test_stack =
     \<lparr>clusters = (\<lambda>c. testcluster), constructs = [], dependencies = [],
      tree = [[''test-stack''], [''test-stack'', ''testcluster'']]\<rparr>"

section \<open>The constructor and the method in closed form\<close>

lemmas prims = and_then_def new_Construct_def new_construct_def new_Role_def
  new_CfnInstanceProfile_def new_Policy_def addRoleMapping_def addManifest_def
  addServiceAccount_def addHelmChart_def addDependency_def

lemma constructor_with_completes:
  fixes s :: App and props :: KarpenterProps
  defines "n \<equiv> length (constructs s)"
    and "c \<equiv> KarpenterProps.cluster props"
    and "ns \<equiv> (case KarpenterProps.namespace props of None \<Rightarrow> ''karpenter'' | Some n \<Rightarrow> n)"
  assumes "library_accepts scope id' props s"
    and "helmRepository_choice lt props = Inr r"
  shows "Karpenter_constructor_with lt scope id' props s =
       (Inr \<lparr>Karpenter.cluster = c, Karpenter.namespace = ns,
          Karpenter.version = KarpenterProps.version props,
          Karpenter.helmRepository = r, nodeRole = n, chart = n + 5\<rparr>,
         s\<lparr>clusters := (clusters s)
              (c := (clusters s c)
                 \<lparr>awsAuth := awsAuth (clusters s c) @
                    [(RoleRef n,
                      \<lparr>username = ''system:node:{{EC2PrivateDNSName}}'',
                       groups = [''system:bootstrappers'', ''system:nodes'']\<rparr>)]\<rparr>),
            constructs := constructs s @
     [Role (scope @ [sanitizeId id']) ''NodeRole''
        \<lparr>assumedBy = ServicePrincipal [Lit ''ec2.'', Tok URL_SUFFIX],
         managedPolicies =
           [fromAwsManagedPolicyName ''AmazonEKS_CNI_Policy'',
            fromAwsManagedPolicyName ''AmazonEKSWorkerNodePolicy'',
            fromAwsManagedPolicyName ''AmazonEC2ContainerRegistryReadOnly'',
            fromAwsManagedPolicyName ''AmazonSSMManagedInstanceCore'']\<rparr>,
      CfnInstanceProfile (scope @ [sanitizeId id']) ''InstanceProfile''
        \<lparr>CfnInstanceProfileProps.roles = [roleName (RoleRef n)],
         instanceProfileName = clusterName (clusters s c) @ [Lit ''-'', Lit id']\<rparr>,
      KubernetesManifest c ''namespace''
        (JObject
          [(''apiVersion'', JString [Lit ''v1'']),
           (''kind'', JString [Lit ''Namespace'']),
           (''metadata'', JObject [(''name'', JString [Lit ns])])]),
      ServiceAccount c ''karpenter'' \<lparr>ServiceAccountOptions.namespace = Some ns\<rparr>,
      Policy (scope @ [sanitizeId id']) ''ControllerPolicy''
        \<lparr>PolicyProps.roles = [ServiceAccountRole (n + 3)],
         statements =
           [\<lparr>actions =
               [''ec2:CreateFleet'',
                ''ec2:CreateLaunchTemplate'',
                ''ec2:CreateTags'',
                ''ec2:DeleteLaunchTemplate'',
                ''ec2:RunInstances'',
                ''ec2:TerminateInstances'',
                ''ec2:DescribeAvailabilityZones'',
                ''ec2:DescribeImages'',
                ''ec2:DescribeInstances'',
                ''ec2:DescribeInstanceTypeOfferings'',
                ''ec2:DescribeInstanceTypes'',
                ''ec2:DescribeLaunchTemplates'',
                ''ec2:DescribeSecurityGroups'',
                ''ec2:DescribeSpotPriceHistory'',
                ''ec2:DescribeSubnets'',
                ''pricing:GetProducts'',
                ''ssm:GetParameter''],
              resources = [[Lit ''*'']]\<rparr>,
            \<lparr>actions = [''iam:PassRole''], resources = [roleArn (RoleRef n)]\<rparr>]\<rparr>,
      HelmChart c ''karpenter''
        \<lparr>wait = True,
         chart = ''karpenter'',
         release = ''karpenter'',
         repository = r,
         HelmChartOptions.namespace = ns,
         HelmChartOptions.version = KarpenterProps.version props,
         createNamespace = False,
         values = JObject
           [(''serviceAccount'', JObject
               [(''create'', JBoolean False),
                (''name'', JString (serviceAccountName (n + 3))),
                (''annotations'', JObject
                   [(''eks.amazonaws.com/role-arn'',
                     JString (roleArn (ServiceAccountRole (n + 3))))])]),
            (''clusterName'', JString (clusterName (clusters s c))),
            (''clusterEndpoint'', JString (clusterEndpoint (clusters s c))),
            (''aws'', JObject
               [(''defaultInstanceProfile'', JString [Tok (Ref (n + 1))])])]\<rparr>],
            dependencies := dependencies s @ [(n + 3, n + 2), (n + 5, n + 2)],
            tree := tree s @ construct_paths scope id' (node_path (clusters s c))\<rparr>)"
  using assms(4)
  unfolding Karpenter_constructor_with_def Let_def
  apply (fold helmRepository_choice_def)
  apply (simp add: assms(5) prims n_def c_def ns_def eval_nat_numeral library_accepts_def
      construct_paths_def)
  apply auto
  done


lemma constructor_with_raises:
  assumes "\<not> library_accepts scope id' props s \<or> (\<exists>e. helmRepository_choice lt props = Inl e)"
  shows "\<exists>e s'. Karpenter_constructor_with lt scope id' props s = (Inl e, s')"
  using assms
  unfolding Karpenter_constructor_with_def Let_def
  apply (fold helmRepository_choice_def)
  apply (cases "helmRepository_choice lt props")
   apply (simp add: prims)
  apply (simp add: prims library_accepts_def construct_paths_def)
  apply auto
  done

lemma constructor_with_TypeError:
  "Karpenter_constructor_with lt scope id' props s = (Inl (TypeError m), s') \<longleftrightarrow>
     sanitizeId id' \<noteq> [] \<and> scope @ [sanitizeId id'] \<notin> set (tree s)
     \<and> helmRepository_choice lt props = Inl (TypeError m)
     \<and> s' = s\<lparr>tree := tree s @ [scope @ [sanitizeId id']]\<rparr>"
  unfolding Karpenter_constructor_with_def Let_def
  apply (fold helmRepository_choice_def)
  apply (cases "helmRepository_choice lt props")
   apply (simp add: prims)
   apply auto[1]
  apply (simp add: prims)
  done

lemma sanitizeId_append: "sanitizeId (a @ b) = sanitizeId a @ sanitizeId b"
  by (induction a) simp_all

lemma addProvisioner_unfold:
  "addProvisioner this id' provisionerSpec s =
     (if provisioner_path s this id' \<in> set (tree s)
      then (Inl (Error (''There is already a Construct with name manifest-'' @ sanitizeId id')),
            s)
      else (Inr (),
            s\<lparr>constructs := constructs s @ [provisioner_manifest this id' provisionerSpec],
              dependencies := dependencies s @ [(length (constructs s), chart this)],
              tree := tree s @ [provisioner_path s this id']\<rparr>))"
  by (simp add: addProvisioner_def prims sanitizeId_append provisioner_path_def
      provisioner_manifest_def)


lemma constructor_with_Inr:
  assumes "Karpenter_constructor_with lt scope id' props s = (Inr k, s')"
  shows "library_accepts scope id' props s"
    and "\<exists>r. helmRepository_choice lt props = Inr r"
proof -
  have "\<not> (\<not> library_accepts scope id' props s
            \<or> (\<exists>e. helmRepository_choice lt props = Inl e))"
    using constructor_with_raises[of scope id' props s lt] assms by auto
  then show "library_accepts scope id' props s"
    and "\<exists>r. helmRepository_choice lt props = Inr r"
    by (auto intro: sum.exhaust[of "helmRepository_choice lt props"])
qed

lemma constructor_with_fields:
  assumes "Karpenter_constructor_with lt scope id' props s = (Inr k, s')"
  shows "helmRepository_choice lt props = Inr (Karpenter.helmRepository k)"
    and "Karpenter.cluster k = KarpenterProps.cluster props"
    and "Karpenter.namespace k =
           (case KarpenterProps.namespace props of None \<Rightarrow> ''karpenter'' | Some n \<Rightarrow> n)"
    and "Karpenter.version k = KarpenterProps.version props"
    and "nodeRole k = length (constructs s)"
    and "chart k = length (constructs s) + 5"
proof -
  obtain r where r: "helmRepository_choice lt props = Inr r"
    using constructor_with_Inr(2)[OF assms] by blast
  note c = constructor_with_completes[OF constructor_with_Inr(1)[OF assms] r]
  show "helmRepository_choice lt props = Inr (Karpenter.helmRepository k)"
    and "Karpenter.cluster k = KarpenterProps.cluster props"
    and "Karpenter.namespace k =
           (case KarpenterProps.namespace props of None \<Rightarrow> ''karpenter'' | Some n \<Rightarrow> n)"
    and "Karpenter.version k = KarpenterProps.version props"
    and "nodeRole k = length (constructs s)"
    and "chart k = length (constructs s) + 5"
    using assms r unfolding c by auto
qed

lemma constructor_with_state:
  assumes "Karpenter_constructor_with lt scope id' props s = (Inr k, s')"
  shows "constructs s' = constructs s @
     [Role (scope @ [sanitizeId id']) ''NodeRole''
        \<lparr>assumedBy = ServicePrincipal [Lit ''ec2.'', Tok URL_SUFFIX],
         managedPolicies =
           [fromAwsManagedPolicyName ''AmazonEKS_CNI_Policy'',
            fromAwsManagedPolicyName ''AmazonEKSWorkerNodePolicy'',
            fromAwsManagedPolicyName ''AmazonEC2ContainerRegistryReadOnly'',
            fromAwsManagedPolicyName ''AmazonSSMManagedInstanceCore'']\<rparr>,
      CfnInstanceProfile (scope @ [sanitizeId id']) ''InstanceProfile''
        \<lparr>CfnInstanceProfileProps.roles = [roleName (RoleRef (nodeRole k))],
         instanceProfileName =
           clusterName (clusters s (Karpenter.cluster k)) @ [Lit ''-'', Lit id']\<rparr>,
      KubernetesManifest (Karpenter.cluster k) ''namespace''
        (JObject
          [(''apiVersion'', JString [Lit ''v1'']),
           (''kind'', JString [Lit ''Namespace'']),
           (''metadata'', JObject [(''name'', JString [Lit (Karpenter.namespace k)])])]),
      ServiceAccount (Karpenter.cluster k) ''karpenter''
        \<lparr>ServiceAccountOptions.namespace = Some (Karpenter.namespace k)\<rparr>,
      Policy (scope @ [sanitizeId id']) ''ControllerPolicy''
        \<lparr>PolicyProps.roles = [ServiceAccountRole (length (constructs s) + 3)],
         statements =
           [\<lparr>actions =
               [''ec2:CreateFleet'',
                ''ec2:CreateLaunchTemplate'',
                ''ec2:CreateTags'',
                ''ec2:DeleteLaunchTemplate'',
                ''ec2:RunInstances'',
                ''ec2:TerminateInstances'',
                ''ec2:DescribeAvailabilityZones'',
                ''ec2:DescribeImages'',
                ''ec2:DescribeInstances'',
                ''ec2:DescribeInstanceTypeOfferings'',
                ''ec2:DescribeInstanceTypes'',
                ''ec2:DescribeLaunchTemplates'',
                ''ec2:DescribeSecurityGroups'',
                ''ec2:DescribeSpotPriceHistory'',
                ''ec2:DescribeSubnets'',
                ''pricing:GetProducts'',
                ''ssm:GetParameter''],
              resources = [[Lit ''*'']]\<rparr>,
            \<lparr>actions = [''iam:PassRole''],
              resources = [roleArn (RoleRef (nodeRole k))]\<rparr>]\<rparr>,
      HelmChart (Karpenter.cluster k) ''karpenter''
        \<lparr>wait = True,
         chart = ''karpenter'',
         release = ''karpenter'',
         repository = Karpenter.helmRepository k,
         HelmChartOptions.namespace = Karpenter.namespace k,
         HelmChartOptions.version = Karpenter.version k,
         createNamespace = False,
         values = JObject
           [(''serviceAccount'', JObject
               [(''create'', JBoolean False),
                (''name'', JString (serviceAccountName (length (constructs s) + 3))),
                (''annotations'', JObject
                   [(''eks.amazonaws.com/role-arn'',
                     JString (roleArn (ServiceAccountRole (length (constructs s) + 3))))])]),
            (''clusterName'', JString (clusterName (clusters s (Karpenter.cluster k)))),
            (''clusterEndpoint'', JString (clusterEndpoint (clusters s (Karpenter.cluster k)))),
            (''aws'', JObject
               [(''defaultInstanceProfile'',
                 JString [Tok (Ref (length (constructs s) + 1))])])]\<rparr>]"
    and "clusters s' = (clusters s)
           (Karpenter.cluster k := (clusters s (Karpenter.cluster k))
              \<lparr>awsAuth := awsAuth (clusters s (Karpenter.cluster k)) @
                 [(RoleRef (nodeRole k),
                   \<lparr>username = ''system:node:{{EC2PrivateDNSName}}'',
                    groups = [''system:bootstrappers'', ''system:nodes'']\<rparr>)]\<rparr>)"
    and "dependencies s' = dependencies s @
           [(length (constructs s) + 3, length (constructs s) + 2),
            (chart k, length (constructs s) + 2)]"
    and "tree s' = tree s @
           construct_paths scope id' (node_path (clusters s (Karpenter.cluster k)))"
proof -
  obtain r where r: "helmRepository_choice lt props = Inr r"
    using constructor_with_Inr(2)[OF assms] by blast
  note c = constructor_with_completes[OF constructor_with_Inr(1)[OF assms] r]
  have e: "(Inr k, s') = Karpenter_constructor_with lt scope id' props s"
    using assms by simp
  show "constructs s' = constructs s @
     [Role (scope @ [sanitizeId id']) ''NodeRole''
        \<lparr>assumedBy = ServicePrincipal [Lit ''ec2.'', Tok URL_SUFFIX],
         managedPolicies =
           [fromAwsManagedPolicyName ''AmazonEKS_CNI_Policy'',
            fromAwsManagedPolicyName ''AmazonEKSWorkerNodePolicy'',
            fromAwsManagedPolicyName ''AmazonEC2ContainerRegistryReadOnly'',
            fromAwsManagedPolicyName ''AmazonSSMManagedInstanceCore'']\<rparr>,
      CfnInstanceProfile (scope @ [sanitizeId id']) ''InstanceProfile''
        \<lparr>CfnInstanceProfileProps.roles = [roleName (RoleRef (nodeRole k))],
         instanceProfileName =
           clusterName (clusters s (Karpenter.cluster k)) @ [Lit ''-'', Lit id']\<rparr>,
      KubernetesManifest (Karpenter.cluster k) ''namespace''
        (JObject
          [(''apiVersion'', JString [Lit ''v1'']),
           (''kind'', JString [Lit ''Namespace'']),
           (''metadata'', JObject [(''name'', JString [Lit (Karpenter.namespace k)])])]),
      ServiceAccount (Karpenter.cluster k) ''karpenter''
        \<lparr>ServiceAccountOptions.namespace = Some (Karpenter.namespace k)\<rparr>,
      Policy (scope @ [sanitizeId id']) ''ControllerPolicy''
        \<lparr>PolicyProps.roles = [ServiceAccountRole (length (constructs s) + 3)],
         statements =
           [\<lparr>actions =
               [''ec2:CreateFleet'',
                ''ec2:CreateLaunchTemplate'',
                ''ec2:CreateTags'',
                ''ec2:DeleteLaunchTemplate'',
                ''ec2:RunInstances'',
                ''ec2:TerminateInstances'',
                ''ec2:DescribeAvailabilityZones'',
                ''ec2:DescribeImages'',
                ''ec2:DescribeInstances'',
                ''ec2:DescribeInstanceTypeOfferings'',
                ''ec2:DescribeInstanceTypes'',
                ''ec2:DescribeLaunchTemplates'',
                ''ec2:DescribeSecurityGroups'',
                ''ec2:DescribeSpotPriceHistory'',
                ''ec2:DescribeSubnets'',
                ''pricing:GetProducts'',
                ''ssm:GetParameter''],
              resources = [[Lit ''*'']]\<rparr>,
            \<lparr>actions = [''iam:PassRole''],
              resources = [roleArn (RoleRef (nodeRole k))]\<rparr>]\<rparr>,
      HelmChart (Karpenter.cluster k) ''karpenter''
        \<lparr>wait = True,
         chart = ''karpenter'',
         release = ''karpenter'',
         repository = Karpenter.helmRepository k,
         HelmChartOptions.namespace = Karpenter.namespace k,
         HelmChartOptions.version = Karpenter.version k,
         createNamespace = False,
         values = JObject
           [(''serviceAccount'', JObject
               [(''create'', JBoolean False),
                (''name'', JString (serviceAccountName (length (constructs s) + 3))),
                (''annotations'', JObject
                   [(''eks.amazonaws.com/role-arn'',
                     JString (roleArn (ServiceAccountRole (length (constructs s) + 3))))])]),
            (''clusterName'', JString (clusterName (clusters s (Karpenter.cluster k)))),
            (''clusterEndpoint'', JString (clusterEndpoint (clusters s (Karpenter.cluster k)))),
            (''aws'', JObject
               [(''defaultInstanceProfile'',
                 JString [Tok (Ref (length (constructs s) + 1))])])]\<rparr>]"
    and "clusters s' = (clusters s)
           (Karpenter.cluster k := (clusters s (Karpenter.cluster k))
              \<lparr>awsAuth := awsAuth (clusters s (Karpenter.cluster k)) @
                 [(RoleRef (nodeRole k),
                   \<lparr>username = ''system:node:{{EC2PrivateDNSName}}'',
                    groups = [''system:bootstrappers'', ''system:nodes'']\<rparr>)]\<rparr>)"
    and "dependencies s' = dependencies s @
           [(length (constructs s) + 3, length (constructs s) + 2),
            (chart k, length (constructs s) + 2)]"
    and "tree s' = tree s @
           construct_paths scope id' (node_path (clusters s (Karpenter.cluster k)))"
    using e unfolding c by auto
qed

lemma constructor_with_chart:
  assumes "Karpenter_constructor_with lt scope id' props s = (Inr k, s')"
  shows "\<exists>opts. constructs s' ! chart k = HelmChart (KarpenterProps.cluster props) ''karpenter'' opts
           \<and> repository opts = Karpenter.helmRepository k
           \<and> HelmChartOptions.namespace opts = Karpenter.namespace k
           \<and> HelmChartOptions.version opts = Karpenter.version k"
  by (simp add: constructor_with_state(1)[OF assms] constructor_with_fields(2,6)[OF assms]
      nth_append)

lemma constructor_with_independent:
  assumes "helmRepository_choice lt props = helmRepository_choice lt' props"
  shows "Karpenter_constructor_with lt scope id' props s
       = Karpenter_constructor_with lt' scope id' props s"
  unfolding Karpenter_constructor_with_def Let_def
  apply (fold helmRepository_choice_def)
  apply (simp only: assms)
  done

lemma new_SemVer_threshold:
  "new_SemVer ''0.17.0'' = Inr \<lparr>major = 0, minor = 17, patch = 0, prerelease = [], build = []\<rparr>"
  by code_simp

lemma semver_lt_threshold:
  "semver_lt v ''0.17.0'' =
     (case new_SemVer v of
        Inl e \<Rightarrow> Inl e
      | Inr x \<Rightarrow>
          Inr (major x < 0 \<or> major x = 0 \<and> (minor x < 17 \<or> minor x = 17 \<and>
                 (patch x < 0 \<or> patch x = 0 \<and> prerelease x \<noteq> []))))"
  by (auto simp add: semver_lt_def new_SemVer_threshold compare_def compareMain_def
      comparePre_def compareNumbers_def split: sum.splits)



lemma version_accepted_iff:
  "version_accepted props \<longleftrightarrow> (\<exists>r. helmRepository_choice semver_lt props = Inr r)"
  by (auto simp add: version_accepted_def helmRepository_choice_def semver_lt_threshold
      split: option.splits sum.splits)

lemma constructor_completes:
  assumes "library_accepts scope id' props s" and "version_accepted props"
  shows "\<exists>k s'. Karpenter_constructor scope id' props s = (Inr k, s')"
proof -
  obtain r where "helmRepository_choice semver_lt props = Inr r"
    using assms(2) version_accepted_iff by blast
  then show ?thesis
    unfolding Karpenter_constructor_def
    using constructor_with_completes[OF assms(1)] by blast
qed

lemma library_accepts_test_stack:
  "library_accepts [''test-stack''] ''Karpenter''
     \<lparr>KarpenterProps.cluster = c, namespace = None, version = v, helmRepository = r\<rparr>
     test_stack"
  "library_accepts [''test-stack''] ''Karpenter''
     \<lparr>KarpenterProps.cluster = c, namespace = Some ''kar-penter'', version = v,
      helmRepository = r\<rparr> test_stack"
  by (simp_all add: library_accepts_def construct_paths_def test_stack_def testcluster_def
      isValidDnsLabelName_def lower_alphanumeric_def)


section \<open>Failure of the constructor\<close>




section \<open>Repository selection by version\<close>




section \<open>An explicit repository\<close>

text \<open>
  C8. With \<^verbatim>\<open>props.helmRepository\<close> defined, the constructor does the same for every
  comparison function, so the version comparison takes no part in it; it never raises a
  \<^verbatim>\<open>TypeError\<close>, whatever the version; whenever it completes, the repository of the
  construct and of the Helm chart is the given one; and it completes, with one result for
  every comparison function, whenever the library accepts the ids and the namespace.
\<close>

theorem explicit_helmRepository_wins:
  assumes "KarpenterProps.helmRepository props = Some r"
  shows "(\<forall>lt. Karpenter_constructor_with lt scope id' props s
              = Karpenter_constructor scope id' props s)
    \<and> (\<forall>m s'. Karpenter_constructor scope id' props s \<noteq> (Inl (TypeError m), s'))
    \<and> (\<forall>k s'. Karpenter_constructor scope id' props s = (Inr k, s') \<longrightarrow>
          Karpenter.helmRepository k = Some r
          \<and> (\<exists>opts. constructs s' ! chart k =
                 HelmChart (KarpenterProps.cluster props) ''karpenter'' opts
               \<and> repository opts = Some r))
    \<and> (library_accepts scope id' props s \<longrightarrow>
          (\<exists>k s' opts.
             (\<forall>lt. Karpenter_constructor_with lt scope id' props s = (Inr k, s'))
             \<and> Karpenter_constructor scope id' props s = (Inr k, s')
             \<and> Karpenter.helmRepository k = Some r
             \<and> constructs s' ! chart k =
                 HelmChart (KarpenterProps.cluster props) ''karpenter'' opts
             \<and> repository opts = Some r))"
proof -
  have c: "\<And>lt. helmRepository_choice lt props = Inr (Some r)"
    using assms by (simp add: helmRepository_choice_def)
  have i: "\<forall>lt. Karpenter_constructor_with lt scope id' props s
              = Karpenter_constructor scope id' props s"
    unfolding Karpenter_constructor_def
    by (intro allI constructor_with_independent) (simp add: c)
  have t: "\<forall>m s'. Karpenter_constructor scope id' props s \<noteq> (Inl (TypeError m), s')"
    by (simp add: Karpenter_constructor_def constructor_with_TypeError c)
  have k: "Karpenter.helmRepository k = Some r
          \<and> (\<exists>opts. constructs s' ! chart k =
                 HelmChart (KarpenterProps.cluster props) ''karpenter'' opts
               \<and> repository opts = Some r)"
    if r: "Karpenter_constructor scope id' props s = (Inr k, s')" for k s'
  proof -
    have w: "Karpenter_constructor_with semver_lt scope id' props s = (Inr k, s')"
      using r by (simp add: Karpenter_constructor_def)
    have h: "Karpenter.helmRepository k = Some r"
      using constructor_with_fields(1)[OF w] c by simp
    show ?thesis using h constructor_with_chart[OF w] by auto
  qed
  have a: "library_accepts scope id' props s \<longrightarrow>
          (\<exists>k s' opts.
             (\<forall>lt. Karpenter_constructor_with lt scope id' props s = (Inr k, s'))
             \<and> Karpenter_constructor scope id' props s = (Inr k, s')
             \<and> Karpenter.helmRepository k = Some r
             \<and> constructs s' ! chart k =
                 HelmChart (KarpenterProps.cluster props) ''karpenter'' opts
             \<and> repository opts = Some r)"
  proof
    assume l: "library_accepts scope id' props s"
    have "version_accepted props" using assms by (simp add: version_accepted_def)
    then obtain k s' where r: "Karpenter_constructor scope id' props s = (Inr k, s')"
      using constructor_completes[OF l] by blast
    show "\<exists>k s' opts.
             (\<forall>lt. Karpenter_constructor_with lt scope id' props s = (Inr k, s'))
             \<and> Karpenter_constructor scope id' props s = (Inr k, s')
             \<and> Karpenter.helmRepository k = Some r
             \<and> constructs s' ! chart k =
                 HelmChart (KarpenterProps.cluster props) ''karpenter'' opts
             \<and> repository opts = Some r"
      using r k[OF r] i by auto
  qed
  show ?thesis using i t k a by blast
qed

theorem explicit_helmRepository_wins_witness:
  "\<exists>k s'. Karpenter_constructor [''test-stack''] ''Karpenter''
       \<lparr>KarpenterProps.cluster = 0, namespace = None, version = Some ''not a version'',
        helmRepository = Some ''oci://repository.test.url''\<rparr> test_stack = (Inr k, s')
     \<and> Karpenter_constructor_with (\<lambda>a b. Inl (TypeError ''never called''))
          [''test-stack''] ''Karpenter''
          \<lparr>KarpenterProps.cluster = 0, namespace = None, version = Some ''not a version'',
           helmRepository = Some ''oci://repository.test.url''\<rparr> test_stack = (Inr k, s')
     \<and> Karpenter.helmRepository k = Some ''oci://repository.test.url''"
  using explicit_helmRepository_wins
    [of "\<lparr>KarpenterProps.cluster = 0, namespace = None, version = Some ''not a version'',
        helmRepository = Some ''oci://repository.test.url''\<rparr>"
        "''oci://repository.test.url''" "[''test-stack'']" "''Karpenter''" test_stack]
    library_accepts_test_stack(1)[of 0 "Some ''not a version''"
      "Some ''oci://repository.test.url''"]
  by auto

section \<open>Passthrough of the configuration\<close>




section \<open>Defaults\<close>




section \<open>The declared resources\<close>




section \<open>The cluster the construct attaches to\<close>



section \<open>Dependency order\<close>




section \<open>Provisioners\<close>

text \<open>
  After the construction of the test setting, \<^verbatim>\<open>addProvisioner\<close> with the id
  \<^verbatim>\<open>namespace\<close> raises and changes nothing: the constructor has used the id itself.
\<close>

theorem addProvisioner_adds_one_manifest_counterexample:
  "fst (Karpenter_constructor [''test-stack''] ''Karpenter''
      \<lparr>KarpenterProps.cluster = 0, namespace = None, version = None, helmRepository = None\<rparr>
      test_stack)
     = Inr \<lparr>Karpenter.cluster = 0, namespace = ''karpenter'', version = None,
            helmRepository = Some ''oci://public.ecr.aws/karpenter'', nodeRole = 0,
            chart = 5\<rparr>
   \<and> addProvisioner
       \<lparr>Karpenter.cluster = 0, namespace = ''karpenter'', version = None,
        helmRepository = Some ''oci://public.ecr.aws/karpenter'', nodeRole = 0, chart = 5\<rparr>
       ''namespace'' (JObject [])
       (snd (Karpenter_constructor [''test-stack''] ''Karpenter''
          \<lparr>KarpenterProps.cluster = 0, namespace = None, version = None,
           helmRepository = None\<rparr> test_stack))
     = (Inl (Error ''There is already a Construct with name manifest-namespace''),
        snd (Karpenter_constructor [''test-stack''] ''Karpenter''
          \<lparr>KarpenterProps.cluster = 0, namespace = None, version = None,
           helmRepository = None\<rparr> test_stack))"
proof -
  let ?props = "\<lparr>KarpenterProps.cluster = 0, namespace = None, version = None,
        helmRepository = None\<rparr>"
  have l: "library_accepts [''test-stack''] ''Karpenter'' ?props test_stack"
    by (rule library_accepts_test_stack)
  have c: "helmRepository_choice semver_lt ?props = Inr (Some ''oci://public.ecr.aws/karpenter'')"
    by (simp add: helmRepository_choice_def)
  show ?thesis
    unfolding Karpenter_constructor_def constructor_with_completes[OF l c]
    by (simp add: addProvisioner_unfold provisioner_path_def construct_paths_def
        test_stack_def testcluster_def)
qed

text \<open>
  C9, as the code has it. When the path \<^verbatim>\<open>manifest-<id>\<close> is free in the scope of the
  cluster, \<^verbatim>\<open>addProvisioner(id, provisionerSpec)\<close> appends exactly one manifest to the
  constructs, on the cluster of the construct, with apiVersion \<^verbatim>\<open>karpenter.sh/v1alpha5\<close>,
  kind \<^verbatim>\<open>Provisioner\<close>, the id as name, the namespace of the construct and the given spec
  unchanged; the constructs declared before stay as they are, the cluster objects are not
  touched, and the one new dependency is that of the manifest on the chart. When the path
  is in use, the method raises and changes nothing.
\<close>

theorem addProvisioner_adds_one_manifest:
  "(provisioner_path s this pid \<notin> set (tree s) \<longrightarrow>
      addProvisioner this pid provisionerSpec s =
        (Inr (),
         s\<lparr>constructs := constructs s @
              [KubernetesManifest (Karpenter.cluster this) pid
                 (JObject
                   [(''apiVersion'', JString [Lit ''karpenter.sh/v1alpha5'']),
                    (''kind'', JString [Lit ''Provisioner'']),
                    (''metadata'', JObject
                       [(''name'', JString [Lit pid]),
                        (''namespace'', JString [Lit (Karpenter.namespace this)])]),
                    (''spec'', provisionerSpec)])],
           dependencies := dependencies s @ [(length (constructs s), chart this)],
           tree := tree s @ [provisioner_path s this pid]\<rparr>))
   \<and> (provisioner_path s this pid \<in> set (tree s) \<longrightarrow>
        addProvisioner this pid provisionerSpec s =
          (Inl (Error (''There is already a Construct with name manifest-'' @ sanitizeId pid)),
           s))
   \<and> provisioner_path s this pid =
       node_path (clusters s (Karpenter.cluster this)) @ [''manifest-'' @ sanitizeId pid]"
  by (simp add: addProvisioner_unfold provisioner_manifest_def provisioner_path_def)

theorem addProvisioner_adds_one_manifest_witness:
  "addProvisioner
       \<lparr>Karpenter.cluster = 0, namespace = ''karpenter'', version = None,
        helmRepository = Some ''oci://public.ecr.aws/karpenter'', nodeRole = 0, chart = 5\<rparr>
       ''default'' (JObject [(''ttlSecondsAfterEmpty'', JNumber 30)]) test_stack
     = (Inr (),
        test_stack\<lparr>constructs :=
            [KubernetesManifest 0 ''default''
               (JObject
                 [(''apiVersion'', JString [Lit ''karpenter.sh/v1alpha5'']),
                  (''kind'', JString [Lit ''Provisioner'']),
                  (''metadata'', JObject
                     [(''name'', JString [Lit ''default'']),
                      (''namespace'', JString [Lit ''karpenter''])]),
                  (''spec'', JObject [(''ttlSecondsAfterEmpty'', JNumber 30)])])],
          dependencies := [(0, 5)],
          tree := tree test_stack @ [[''test-stack'', ''testcluster'', ''manifest-default'']]\<rparr>)"
  using addProvisioner_adds_one_manifest
    [of test_stack "\<lparr>Karpenter.cluster = 0, namespace = ''karpenter'', version = None,
        helmRepository = Some ''oci://public.ecr.aws/karpenter'', nodeRole = 0, chart = 5\<rparr>"
        "''default''" "JObject [(''ttlSecondsAfterEmpty'', JNumber 30)]"]
  by (simp add: test_stack_def testcluster_def)

end
